theory Spec2Isabelle
  imports Complex_Main "HOL-Library.Word"
begin

unbundle bit_operations_syntax

section \<open>The tile-map loader (\<^verbatim>\<open>tmx_loader/__init__.py\<close>)\<close>

text \<open>
  The loader turns a parsed tile-map document into a scene graph with collision
  geometry.  Python integers are unbounded, so global tile ids are \<^typ>\<open>int\<close>;
  sizes, coordinates and matrix entries are Python numbers handed to the engine and are
  modelled over \<^typ>\<open>real\<close> (the rounding of the engine's floats is not modelled).
  Every \<^verbatim>\<open>raise\<close> of the source is a value of \<open>error\<close>.
\<close>

subsection \<open>Errors\<close>

text \<open>
  \<^verbatim>\<open>UnsupportedError\<close> is the module's own exception (a subclass of \<^verbatim>\<open>ValueError\<close>);
  its payload tells the four places that raise it apart.  The two plain
  \<^verbatim>\<open>ValueError\<close>s carry what their messages print.
\<close>

datatype unsupported =
    CannotLoadInfiniteMap
  | UnsupportedMapOrientation string
  | NonRectangularCollider
  | UnsupportedLayerType

datatype error =
    UnsupportedError unsupported
  | MissingImageDimensions string
  | CouldNotFindTileset int
  | KeyError int
  | ZeroDivisionError
  | AssertionError

subsection \<open>Paths (\<^verbatim>\<open>pathlib\<close>)\<close>

text \<open>
  A path is its list of components and whether it is absolute.  \<open>joinpath\<close> is the
  operator \<^verbatim>\<open>/\<close>: an absolute right operand replaces the left one.
\<close>

datatype path = Path (is_absolute: bool) (parts: "string list")

definition parent :: "path \<Rightarrow> path" where
  "parent p = Path (is_absolute p) (butlast (parts p))"

definition joinpath :: "path \<Rightarrow> path \<Rightarrow> path" where
  "joinpath p q = (if is_absolute q then q else Path (is_absolute p) (parts p @ parts q))"

definition path_name :: "path \<Rightarrow> string" where
  "path_name p = (if parts p = [] then [] else last (parts p))"

definition rfind :: "char \<Rightarrow> string \<Rightarrow> nat option" where
  "rfind c s = (case filter (\<lambda>i. s ! i = c) (rev [0..<length s]) of [] \<Rightarrow> None | i # _ \<Rightarrow> Some i)"

definition stem :: "path \<Rightarrow> string" where
  "stem p =
     (let name = path_name p in
      case rfind CHR ''.'' name of
        None \<Rightarrow> name
      | Some i \<Rightarrow> if 0 < i \<and> i < length name - 1 then take i name else name)"

subsection \<open>The parsed document (\<^verbatim>\<open>pytiled_parser\<close>)\<close>

datatype shape = Tile (tile_gid: int) | Rectangle | Ellipse | Point | Polygon | Polyline | Text

record tiled_object =
  obj_name :: string
  coordinates :: "real \<times> real"
  obj_size :: "real \<times> real"
  rotation :: real
  shape :: shape

text \<open>
  The four layer classes of the parser, and \<open>OtherLayer\<close> for a layer object of none
  of them (the \<^verbatim>\<open>else\<close> branch of \<^verbatim>\<open>load_layer\<close>).
\<close>

datatype layer =
    TileLayer (layer_name: string) (data: "int list list option")
  | ObjectLayer (layer_name: string) (tiled_objects: "tiled_object list")
  | ImageLayer (layer_name: string) (layer_image: path) (opacity: real)
  | LayerGroup (layer_name: string) (group_layers: "layer list option")
  | OtherLayer (layer_name: string)

record tile =
  tile_id :: int
  objects :: "layer option"

record tileset =
  tileset_name :: string
  firstgid :: int
  tile_count :: int
  tile_width :: int
  tile_height :: int
  margin :: int
  spacing :: int
  columns :: int
  image_path :: "path option"
  image_width :: "int option"
  image_height :: "int option"
  tiles :: "(int \<times> tile) list option"

text \<open>
  \<^verbatim>\<open>tilesets\<close> is a dictionary: an association list in insertion (declaration) order,
  its keys distinct.  \<^verbatim>\<open>tilesets.values()\<close> is \<open>map snd\<close> of it and
  \<^verbatim>\<open>tilesets[k]\<close> is \<open>map_of\<close> at \<open>k\<close>.
\<close>

record tiled_map =
  map_file :: path
  infinite_flag :: bool
  orientation :: string
  tile_size :: "real \<times> real"
  tilesets :: "(int \<times> tileset) list"
  layers :: "layer list"

subsection \<open>Engine values (\<^verbatim>\<open>panda3d.core\<close>)\<close>

text \<open>
  A matrix is kept as the product of the primitive matrices it was built from, in the
  order they were multiplied; \<^verbatim>\<open>LMatrix4()\<close> is the empty product, the identity.  The
  engine multiplies row vectors from the left, so \<open>xform_point\<close> applies the factors
  first to last.  The source only ever rotates by 180 degrees, which maps \<open>p\<close> to
  \<open>2 (a \<bullet> p) / (a \<bullet> a) a - p\<close> for the axis \<open>a\<close>.
\<close>

type_synonym vec3 = "real \<times> real \<times> real"

datatype matrix_factor = Rotate180 vec3 | Translate vec3 | Scale vec3

type_synonym LMatrix4 = "matrix_factor list"

definition ident_mat :: LMatrix4 where
  "ident_mat = []"

definition rotate_mat_180 :: "vec3 \<Rightarrow> LMatrix4" where
  "rotate_mat_180 axis = [Rotate180 axis]"

definition translate_mat :: "real \<Rightarrow> real \<Rightarrow> real \<Rightarrow> LMatrix4" where
  "translate_mat x y z = [Translate (x, y, z)]"

definition scale_mat :: "real \<Rightarrow> real \<Rightarrow> real \<Rightarrow> LMatrix4" where
  "scale_mat x y z = [Scale (x, y, z)]"

fun xform_factor :: "matrix_factor \<Rightarrow> vec3 \<Rightarrow> vec3" where
  "xform_factor (Translate (tx, ty, tz)) (x, y, z) = (x + tx, y + ty, z + tz)"
| "xform_factor (Scale (sx, sy, sz)) (x, y, z) = (x * sx, y * sy, z * sz)"
| "xform_factor (Rotate180 (a, b, c)) (x, y, z) =
     (let k = 2 * (a * x + b * y + c * z) / (a * a + b * b + c * c)
      in (k * a - x, k * b - y, k * c - z))"

fun xform_point :: "LMatrix4 \<Rightarrow> vec3 \<Rightarrow> vec3" where
  "xform_point [] p = p"
| "xform_point (f # fs) p = xform_point fs (xform_factor f p)"

datatype auto_texture_scale = ATS_unspecified | ATS_none

datatype filter_type = FT_default | FT_nearest

record texture =
  x_size :: int
  y_size :: int
  orig_file_x_size :: int
  orig_file_y_size :: int
  num_components :: int
  magfilter :: filter_type
  alpha_fill :: "real option"

text \<open>What \<^verbatim>\<open>Texture.read\<close> finds in a file, under the given scaling option.\<close>

type_synonym texture_reader = "auto_texture_scale \<Rightarrow> path \<Rightarrow> texture"

text \<open>
  \<^verbatim>\<open>RenderState\<close>: the texture attribute and whether the alpha transparency attribute
  is present.
\<close>

datatype render_state = RenderState (state_texture: texture) (state_alpha: bool)

datatype collision_solid = CollisionBox vec3 vec3

text \<open>One row of the \<^verbatim>\<open>v3t2\<close> vertex data: a vertex and its texture coordinate.\<close>

type_synonym vertex_row = "vec3 \<times> (real \<times> real)"

record geom =
  vertex_data :: "vertex_row list"
  primitive_vertices :: nat

datatype node_kind =
    PandaNode
  | GeomNode "(geom \<times> render_state) list"
  | CardNode "real \<times> real \<times> real \<times> real"
  | CollisionNode "collision_solid list"

text \<open>
  A scene node with its local transform, its own render state and its children in the
  order they were attached.  A \<^verbatim>\<open>NodePath\<close> is a handle on a node; the model keeps the
  node.
\<close>

datatype node =
  Node (node_name: string) (kind: node_kind) (pos: vec3) (node_scale: vec3) (roll: real)
       (node_state: "render_state option") (children: "node list")

definition new_node :: "string \<Rightarrow> node_kind \<Rightarrow> node" where
  "new_node nm k = Node nm k (0, 0, 0) (1, 1, 1) 0 None []"

fun set_pos :: "vec3 \<Rightarrow> node \<Rightarrow> node" where
  "set_pos p (Node nm k _ sc r st cs) = Node nm k p sc r st cs"

fun set_scale :: "vec3 \<Rightarrow> node \<Rightarrow> node" where
  "set_scale sc (Node nm k p _ r st cs) = Node nm k p sc r st cs"

fun set_r :: "real \<Rightarrow> node \<Rightarrow> node" where
  "set_r r (Node nm k p sc _ st cs) = Node nm k p sc r st cs"

fun set_state :: "render_state \<Rightarrow> node \<Rightarrow> node" where
  "set_state st (Node nm k p sc r _ cs) = Node nm k p sc r (Some st) cs"

text \<open>\<^verbatim>\<open>child.reparent_to(parent)\<close> and \<^verbatim>\<open>parent.attach_new_node(child)\<close>.\<close>

fun attach :: "node \<Rightarrow> node \<Rightarrow> node" where
  "attach (Node nm k p sc r st cs) child = Node nm k p sc r st (cs @ [child])"

subsection \<open>Transform codec\<close>

definition HORIZONTAL_FLIP_FLAG :: int where
  "HORIZONTAL_FLIP_FLAG = 0x80000000"

definition VERTICAL_FLIP_FLAG :: int where
  "VERTICAL_FLIP_FLAG = 0x40000000"

definition DIAGONAL_FLIP_FLAG :: int where
  "DIAGONAL_FLIP_FLAG = 0x20000000"

definition HEXAGONAL_ROTATION_FLAG :: int where
  "HEXAGONAL_ROTATION_FLAG = 0x10000000"

definition extract_tile_transform :: "int \<Rightarrow> int \<times> LMatrix4" where
  "extract_tile_transform gid =
     (let transform = ident_mat;
          transform = (if gid AND DIAGONAL_FLIP_FLAG \<noteq> 0
                       then transform @ rotate_mat_180 (1, 0, -1) @ translate_mat 1 0 (-1)
                       else transform);
          transform = (if gid AND HORIZONTAL_FLIP_FLAG \<noteq> 0
                       then transform @ rotate_mat_180 (0, 0, 1) @ translate_mat 1 0 0
                       else transform);
          transform = (if gid AND VERTICAL_FLIP_FLAG \<noteq> 0
                       then transform @ rotate_mat_180 (1, 0, 0) @ translate_mat 0 0 1
                       else transform);
          gid = gid AND NOT (HORIZONTAL_FLIP_FLAG OR DIAGONAL_FLIP_FLAG
                             OR VERTICAL_FLIP_FLAG OR HEXAGONAL_ROTATION_FLAG)
      in (gid, transform))"

subsection \<open>Atlas mapper\<close>

text \<open>
  \<^verbatim>\<open>j, i = divmod(tile_id, tileset.columns)\<close> and the pixel offsets \<^verbatim>\<open>x_start\<close>,
  \<^verbatim>\<open>y_start\<close> computed from it.  Python's \<^verbatim>\<open>divmod\<close> on integers rounds towards minus
  infinity, as \<open>div\<close> and \<open>mod\<close> on \<^typ>\<open>int\<close> do; a zero divisor raises.
\<close>

definition tile_row_column :: "tileset \<Rightarrow> int \<Rightarrow> int \<times> int" where
  "tile_row_column ts tid = (tid div columns ts, tid mod columns ts)"

definition tile_start :: "tileset \<Rightarrow> int \<Rightarrow> int \<times> int" where
  "tile_start ts tid =
     (let (j, i) = tile_row_column ts tid;
          x_start = i * (tile_width ts + spacing ts);
          y_start = j * (tile_height ts + spacing ts)
      in (x_start, y_start))"

definition get_tile_uv_transform :: "tileset \<Rightarrow> int \<Rightarrow> error + LMatrix4" where
  "get_tile_uv_transform ts tid =
     (let tile_scale = scale_mat (real_of_int (tile_width ts)) 1 (real_of_int (tile_height ts)) in
      case (image_height ts, image_width ts) of
        (Some ih, Some iw) \<Rightarrow>
          (let shift = translate_mat (real_of_int (margin ts)) 0
                         (real_of_int (ih - margin ts - tile_height ts)) in
           if iw = 0 \<or> ih = 0 then Inl ZeroDivisionError
           else
             (let image_scale = scale_mat (1 / real_of_int iw) 1 (1 / real_of_int ih) in
              if columns ts = 0 then Inl ZeroDivisionError
              else
                (let (x_start, y_start) = tile_start ts tid;
                     translation = translate_mat (real_of_int x_start) 0 (- real_of_int y_start)
                 in Inr (tile_scale @ shift @ translation @ image_scale))))
      | _ \<Rightarrow> Inl (MissingImageDimensions (tileset_name ts)))"

subsection \<open>Tile batch builder\<close>

definition quad_points :: "(real \<times> real) list" where
  "quad_points = [(0, 0), (0, 1), (1, 1), (1, 1), (1, 0), (0, 0)]"

definition quad_row :: "LMatrix4 \<Rightarrow> LMatrix4 \<Rightarrow> real \<times> real \<Rightarrow> vertex_row" where
  "quad_row shape_xform uv_xform xy =
     (let (x, y) = xy;
          vertex = xform_point shape_xform (x, 0, y);
          (tx, ty, tz) = xform_point uv_xform (x, 0, y)
      in (vertex, (tx, tz)))"

text \<open>
  \<^verbatim>\<open>TileGeomBuilder.add_tile\<close>: both writers start at the current number of rows, so
  the six rows are appended.
\<close>

definition TileGeomBuilder_add_tile :: "LMatrix4 \<Rightarrow> LMatrix4 \<Rightarrow> vertex_row list \<Rightarrow> vertex_row list" where
  "TileGeomBuilder_add_tile shape_xform uv_xform vd =
     vd @ map (quad_row shape_xform uv_xform) quad_points"

definition generate_geom :: "vertex_row list \<Rightarrow> geom" where
  "generate_geom vd = \<lparr>vertex_data = vd, primitive_vertices = length vd\<rparr>"

text \<open>
  \<^verbatim>\<open>TileArranger.add_tile\<close>, on the arranger's tileset and the vertex data of its
  builder.
\<close>

definition TileArranger_add_tile ::
  "tileset \<Rightarrow> int \<Rightarrow> int \<Rightarrow> int \<Rightarrow> vertex_row list \<Rightarrow> error + vertex_row list" where
  "TileArranger_add_tile ts gid x y vd =
     (if gid = 0 then Inr vd
      else
        (let (gid, tile_transform) = extract_tile_transform gid;
             tile_scale = scale_mat (real_of_int (tile_width ts)) 1 (real_of_int (tile_height ts));
             tile_transform =
               tile_transform @ (translate_mat (real_of_int x) 0 (real_of_int (- y - 1)) @ tile_scale)
         in case get_tile_uv_transform ts (gid - firstgid ts) of
              Inl e \<Rightarrow> Inl e
            | Inr uv_transform \<Rightarrow> Inr (TileGeomBuilder_add_tile tile_transform uv_transform vd)))"

subsection \<open>Tileset lookup\<close>

fun find_source_scan :: "int \<Rightarrow> tileset list \<Rightarrow> error + tileset" where
  "find_source_scan gid [] = Inl (CouldNotFindTileset gid)"
| "find_source_scan gid (ts # rest) =
     (if 0 \<le> gid - firstgid ts \<and> gid - firstgid ts < tile_count ts then Inr ts
      else find_source_scan gid rest)"

definition find_source :: "tiled_map \<Rightarrow> int \<Rightarrow> error + tileset" where
  "find_source m gid =
     (let gid = gid AND NOT (HORIZONTAL_FLIP_FLAG OR DIAGONAL_FLIP_FLAG
                             OR VERTICAL_FLIP_FLAG OR HEXAGONAL_ROTATION_FLAG)
      in find_source_scan gid (map snd (tilesets m)))"

subsection \<open>The state of a load\<close>

text \<open>
  What a load changes besides the document: the dictionary of the
  \<^verbatim>\<open>ColliderHandler\<close>, and the scene nodes it constructs, counted (\<^verbatim>\<open>NodePath(name)\<close>,
  \<^verbatim>\<open>attach_new_node(name)\<close>, \<^verbatim>\<open>GeomNode\<close>, \<^verbatim>\<open>CollisionNode\<close> and \<^verbatim>\<open>CardMaker.generate\<close>
  each construct one).  An effectful function takes the state and returns it with its
  result, also when it raises.
\<close>

record world =
  colliders :: "int \<rightharpoonup> node"
  nodes_made :: nat

definition initial_world :: world where
  "initial_world = \<lparr>colliders = Map.empty, nodes_made = 0\<rparr>"

definition made :: "world \<Rightarrow> world" where
  "made s = s\<lparr>nodes_made := Suc (nodes_made s)\<rparr>"

subsection \<open>Textures and render states\<close>

definition load_tileset_image :: "texture_reader \<Rightarrow> tileset \<Rightarrow> error + texture" where
  "load_tileset_image tio ts =
     (case image_path ts of
        None \<Rightarrow> Inl AssertionError
      | Some p \<Rightarrow> Inr ((tio ATS_none p)\<lparr>magfilter := FT_nearest\<rparr>))"

definition make_render_state :: "texture \<Rightarrow> render_state" where
  "make_render_state tex = RenderState tex (num_components tex > 3)"

text \<open>
  \<^verbatim>\<open>modify_opacity\<close> stores the texture into an image, fills the image's alpha, which
  gives an image without an alpha channel one (grayscale becomes two channels, colour
  four), and loads a new texture from the image; a texture loaded from an image has no
  original file size.
\<close>

definition modify_opacity :: "texture \<Rightarrow> real \<Rightarrow> texture" where
  "modify_opacity tex op =
     \<lparr>x_size = x_size tex, y_size = y_size tex,
      orig_file_x_size = 0, orig_file_y_size = 0,
      num_components = (if num_components tex = 1 \<or> num_components tex = 3
                        then num_components tex + 1 else num_components tex),
      magfilter = FT_default, alpha_fill = Some op\<rparr>"

text \<open>\<^verbatim>\<open>TileArranger.generate_node\<close>: the \<^verbatim>\<open>GeomNode\<close> is constructed first.\<close>

definition generate_node ::
  "texture_reader \<Rightarrow> tileset \<Rightarrow> vertex_row list \<Rightarrow> world \<Rightarrow> world \<times> (error + node)" where
  "generate_node tio ts vd s =
     (let s = made s;
          tile_geom = generate_geom vd
      in case load_tileset_image tio ts of
           Inl e \<Rightarrow> (s, Inl e)
         | Inr tex \<Rightarrow>
             (s, Inr (new_node ''tile'' (GeomNode [(tile_geom, make_render_state tex)]))))"

definition load_image_layer :: "texture_reader \<Rightarrow> layer \<Rightarrow> world \<Rightarrow> world \<times> node" where
  "load_image_layer tio l s =
     (let s = made s;
          layer_node = new_node (layer_name l) PandaNode;
          tex = tio ATS_unspecified (layer_image l);
          width = real_of_int (orig_file_x_size tex);
          height = real_of_int (orig_file_y_size tex);
          tex = modify_opacity tex (opacity l);
          s = made s;
          image_node = new_node (stem (layer_image l)) (CardNode (0, width, - height, 0));
          image_node = set_state (make_render_state tex) image_node
      in (s, attach layer_node image_node))"

subsection \<open>Collider registry\<close>

text \<open>
  \<^verbatim>\<open>load_collider\<close>.  The engine's \<^verbatim>\<open>CollisionBox\<close> constructor fails an assertion on a
  box with a zero extent; the depth is 32, so that is a rectangle of zero width or
  height.
\<close>

definition load_collider :: "tiled_object \<Rightarrow> error + collision_solid" where
  "load_collider obj =
     (if shape obj \<noteq> Rectangle then Inl (UnsupportedError NonRectangularCollider)
      else (let (width, height) = obj_size obj
            in if width = 0 \<or> height = 0 then Inl AssertionError
               else Inr (CollisionBox (0, -16, - height) (width, 16, 0))))"

text \<open>The solids of one tile's objects, in order; the first object that raises ends it.\<close>

fun load_solids :: "tiled_object list \<Rightarrow> error + collision_solid list" where
  "load_solids [] = Inr []"
| "load_solids (obj # objs) =
     (case load_collider obj of
        Inl e \<Rightarrow> Inl e
      | Inr c \<Rightarrow> (case load_solids objs of Inl e \<Rightarrow> Inl e | Inr cs \<Rightarrow> Inr (c # cs)))"

text \<open>
  The loop of \<^verbatim>\<open>load_colliders\<close> over \<^verbatim>\<open>tileset.tiles.values()\<close>; \<open>fg\<close> is the tileset's
  \<^verbatim>\<open>firstgid\<close>.
\<close>

fun load_colliders_tiles :: "int \<Rightarrow> tile list \<Rightarrow> world \<Rightarrow> world \<times> (error + unit)" where
  "load_colliders_tiles fg [] s = (s, Inr ())"
| "load_colliders_tiles fg (t # rest) s =
     (case objects t of
        Some (ObjectLayer nm objs) \<Rightarrow>
          (let s = made s in
           case load_solids objs of
             Inl e \<Rightarrow> (s, Inl e)
           | Inr solids \<Rightarrow>
               load_colliders_tiles fg rest
                 (s\<lparr>colliders := (colliders s)
                       (fg + tile_id t \<mapsto> new_node ''collision_node'' (CollisionNode solids))\<rparr>))
      | _ \<Rightarrow> load_colliders_tiles fg rest s)"

definition load_colliders :: "tileset \<Rightarrow> world \<Rightarrow> world \<times> (error + unit)" where
  "load_colliders ts s =
     (case tiles ts of
        None \<Rightarrow> (s, Inr ())
      | Some d \<Rightarrow> load_colliders_tiles (firstgid ts) (map snd d) s)"

definition get_collider :: "world \<Rightarrow> int \<Rightarrow> node option" where
  "get_collider s gid = colliders s gid"

fun load_tile_colliders_scan :: "tileset list \<Rightarrow> world \<Rightarrow> world \<times> (error + unit)" where
  "load_tile_colliders_scan [] s = (s, Inr ())"
| "load_tile_colliders_scan (ts # rest) s =
     (case load_colliders ts s of
        (s, Inl e) \<Rightarrow> (s, Inl e)
      | (s, Inr _) \<Rightarrow> load_tile_colliders_scan rest s)"

definition load_tile_colliders :: "tiled_map \<Rightarrow> world \<Rightarrow> world \<times> (error + unit)" where
  "load_tile_colliders m s = load_tile_colliders_scan (map snd (tilesets m)) s"

subsection \<open>Layer composer\<close>

text \<open>
  \<^verbatim>\<open>MapLoader.place_object\<close>.  The source attaches the tile node to the object's node
  and then works on it through its handle: position, scale, and last the collider as
  its child.  The model builds the tile node in that order and attaches it when it is
  complete, which gives the same tree.
\<close>

definition place_tile ::
  "texture_reader \<Rightarrow> tiled_map \<Rightarrow> tiled_object \<Rightarrow> int \<Rightarrow> world \<Rightarrow> world \<times> (error + node)" where
  "place_tile tio m obj g s =
     (case find_source m g of
        Inl e \<Rightarrow> (s, Inl e)
      | Inr ts \<Rightarrow>
          (case TileArranger_add_tile ts g 0 0 [] of
             Inl e \<Rightarrow> (s, Inl e)
           | Inr vd \<Rightarrow>
               (case generate_node tio ts vd s of
                  (s, Inl e) \<Rightarrow> (s, Inl e)
                | (s, Inr tile_path) \<Rightarrow>
                    (let (object_width, object_height) = obj_size obj in
                     if fst (tile_size m) = 0 then (s, Inl ZeroDivisionError)
                     else
                       (let width_scale = object_width / fst (tile_size m) in
                        if snd (tile_size m) = 0 then (s, Inl ZeroDivisionError)
                        else
                          (let height_scale = object_height / snd (tile_size m);
                               tile_path = set_pos (0, 0, object_height) tile_path;
                               tile_path = set_scale (width_scale, 1, height_scale) tile_path;
                               tile_path = (case get_collider s g of
                                              None \<Rightarrow> tile_path
                                            | Some collision_node \<Rightarrow> attach tile_path collision_node)
                           in (s, Inr tile_path)))))))"

definition place_object ::
  "texture_reader \<Rightarrow> tiled_map \<Rightarrow> tiled_object \<Rightarrow> world \<Rightarrow> world \<times> (error + node)" where
  "place_object tio m obj s =
     (let s = made s;
          object_path = new_node (obj_name obj) PandaNode
      in case (case shape obj of
                 Tile g \<Rightarrow>
                   (case place_tile tio m obj g s of
                      (s, Inl e) \<Rightarrow> (s, Inl e)
                    | (s, Inr tile_path) \<Rightarrow> (s, Inr (attach object_path tile_path)))
               | _ \<Rightarrow> (s, Inr object_path)) of
           (s, Inl e) \<Rightarrow> (s, Inl e)
         | (s, Inr object_path) \<Rightarrow>
             (let object_path = set_pos (fst (coordinates obj), 0, - snd (coordinates obj)) object_path;
                  object_path = set_r (rotation obj) object_path
              in (s, Inr object_path)))"

text \<open>
  The two loops of \<^verbatim>\<open>load_tile_layer\<close>: over the cells \<open>i\<close> of row \<open>j\<close>, and over the
  rows.  They carry the builder's vertex data and the \<^verbatim>\<open>cluster_collider\<close> node.
\<close>

fun load_tile_cells ::
  "tileset \<Rightarrow> real \<times> real \<Rightarrow> nat \<Rightarrow> nat \<Rightarrow> int list \<Rightarrow> vertex_row list \<times> node \<Rightarrow> world
   \<Rightarrow> world \<times> (error + vertex_row list \<times> node)" where
  "load_tile_cells ts sz j i [] acc s = (s, Inr acc)"
| "load_tile_cells ts sz j i (g # row) (vd, collider_parent) s =
     (case TileArranger_add_tile ts g (int i) (int j) vd of
        Inl e \<Rightarrow> (s, Inl e)
      | Inr vd \<Rightarrow>
          (case get_collider s g of
             None \<Rightarrow> load_tile_cells ts sz j (Suc i) row (vd, collider_parent) s
           | Some collision_node \<Rightarrow>
               (let s = made s;
                    collider_path = new_node ''collider_location'' PandaNode;
                    collider_path = set_pos (real i * fst sz, 0, - real j * snd sz) collider_path;
                    collider_path = attach collider_path collision_node
                in load_tile_cells ts sz j (Suc i) row (vd, attach collider_parent collider_path) s)))"

fun load_tile_rows ::
  "tileset \<Rightarrow> real \<times> real \<Rightarrow> nat \<Rightarrow> int list list \<Rightarrow> vertex_row list \<times> node \<Rightarrow> world
   \<Rightarrow> world \<times> (error + vertex_row list \<times> node)" where
  "load_tile_rows ts sz j [] acc s = (s, Inr acc)"
| "load_tile_rows ts sz j (row # rows) acc s =
     (case load_tile_cells ts sz j 0 row acc s of
        (s, Inl e) \<Rightarrow> (s, Inl e)
      | (s, Inr acc) \<Rightarrow> load_tile_rows ts sz (Suc j) rows acc s)"

text \<open>The body of \<^verbatim>\<open>load_tile_layer\<close> once the arranger's tileset is chosen.\<close>

definition compose_tile_layer ::
  "texture_reader \<Rightarrow> tiled_map \<Rightarrow> tileset \<Rightarrow> layer \<Rightarrow> node \<Rightarrow> node \<Rightarrow> world
   \<Rightarrow> world \<times> (error + node)" where
  "compose_tile_layer tio m ts l layer_node collider_parent s =
     (case load_tile_rows ts (tile_size m) 0 (case data l of None \<Rightarrow> [] | Some d \<Rightarrow> d)
             ([], collider_parent) s of
        (s, Inl e) \<Rightarrow> (s, Inl e)
      | (s, Inr (vd, collider_parent)) \<Rightarrow>
          (case generate_node tio ts vd s of
             (s, Inl e) \<Rightarrow> (s, Inl e)
           | (s, Inr cluster_path) \<Rightarrow>
               (let cluster_path = attach cluster_path collider_parent
                in (s, Inr (attach layer_node cluster_path)))))"

definition load_tile_layer ::
  "texture_reader \<Rightarrow> tiled_map \<Rightarrow> layer \<Rightarrow> world \<Rightarrow> world \<times> (error + node)" where
  "load_tile_layer tio m l s =
     (let s = made s;
          layer_node = new_node (layer_name l) PandaNode;
          s = made s;
          collider_parent = new_node ''cluster_collider'' PandaNode
      in case map_of (tilesets m) 1 of
           None \<Rightarrow> (s, Inl (KeyError 1))
         | Some ts \<Rightarrow> compose_tile_layer tio m ts l layer_node collider_parent s)"

fun place_objects ::
  "texture_reader \<Rightarrow> tiled_map \<Rightarrow> tiled_object list \<Rightarrow> node \<Rightarrow> world \<Rightarrow> world \<times> (error + node)" where
  "place_objects tio m [] layer_node s = (s, Inr layer_node)"
| "place_objects tio m (obj # objs) layer_node s =
     (case place_object tio m obj s of
        (s, Inl e) \<Rightarrow> (s, Inl e)
      | (s, Inr object_node) \<Rightarrow> place_objects tio m objs (attach layer_node object_node) s)"

definition load_object_layer ::
  "texture_reader \<Rightarrow> tiled_map \<Rightarrow> layer \<Rightarrow> world \<Rightarrow> world \<times> (error + node)" where
  "load_object_layer tio m l s =
     (let s = made s;
          layer_node = new_node (layer_name l) PandaNode
      in place_objects tio m (tiled_objects l) layer_node s)"

text \<open>
  \<^verbatim>\<open>load_layer\<close> and \<^verbatim>\<open>load_layer_group\<close>.  An image layer is assigned to
  (\<^verbatim>\<open>layer.image = ...\<close>), so a layer is returned as the call leaves it.  \<open>load_layers\<close>
  is the loop that composes each layer of a list and reparents its node to \<open>root_node\<close>: the
  loop of \<^verbatim>\<open>load_layer_group\<close> and of \<^verbatim>\<open>MapLoader.load_map\<close>.
\<close>

fun load_layer ::
      "texture_reader \<Rightarrow> tiled_map \<Rightarrow> layer \<Rightarrow> world \<Rightarrow> layer \<times> world \<times> (error + node)"
  and load_layers ::
      "texture_reader \<Rightarrow> tiled_map \<Rightarrow> layer list \<Rightarrow> node \<Rightarrow> world
       \<Rightarrow> layer list \<times> world \<times> (error + node)" where
  "load_layer tio m (TileLayer nm d) s =
     (case load_tile_layer tio m (TileLayer nm d) s of (s, r) \<Rightarrow> (TileLayer nm d, s, r))"
| "load_layer tio m (ObjectLayer nm objs) s =
     (case load_object_layer tio m (ObjectLayer nm objs) s of (s, r) \<Rightarrow> (ObjectLayer nm objs, s, r))"
| "load_layer tio m (ImageLayer nm img op) s =
     (let l = ImageLayer nm (joinpath (parent (map_file m)) img) op
      in case load_image_layer tio l s of (s, layer_node) \<Rightarrow> (l, s, Inr layer_node))"
| "load_layer tio m (LayerGroup nm ls) s =
     (let s = made s;
          layer_node = new_node nm PandaNode
      in case ls of
           None \<Rightarrow> (LayerGroup nm ls, s, Inr layer_node)
         | Some sub \<Rightarrow>
             (case load_layers tio m sub layer_node s of
                (sub, s, r) \<Rightarrow> (LayerGroup nm (Some sub), s, r)))"
| "load_layer tio m (OtherLayer nm) s =
     (OtherLayer nm, s, Inl (UnsupportedError UnsupportedLayerType))"
| "load_layers tio m [] root_node s = ([], s, Inr root_node)"
| "load_layers tio m (l # rest) root_node s =
     (case load_layer tio m l s of
        (l, s, Inl e) \<Rightarrow> (l # rest, s, Inl e)
      | (l, s, Inr layer_node) \<Rightarrow>
          (case load_layers tio m rest (attach root_node layer_node) s of
             (rest, s, r) \<Rightarrow> (l # rest, s, r)))"

subsection \<open>Map assembler\<close>

definition MapLoader_load_map ::
  "texture_reader \<Rightarrow> tiled_map \<Rightarrow> world \<Rightarrow> tiled_map \<times> world \<times> (error + node)" where
  "MapLoader_load_map tio m s =
     (let s = made s;
          map_root = new_node (stem (map_file m)) PandaNode
      in case load_layers tio m (layers m) map_root s of
           (ls, s, r) \<Rightarrow> (m\<lparr>layers := ls\<rparr>, s, r))"

text \<open>
  The module's \<^verbatim>\<open>load_map\<close>, from the parsed document on (\<^verbatim>\<open>ptp.parse_map\<close> is the
  parser's).  The \<^verbatim>\<open>MapLoader\<close> and its empty \<^verbatim>\<open>ColliderHandler\<close> are made after the two
  checks.
\<close>

definition load_map :: "texture_reader \<Rightarrow> tiled_map \<Rightarrow> tiled_map \<times> world \<times> (error + node)" where
  "load_map tio m =
     (if infinite_flag m then (m, initial_world, Inl (UnsupportedError CannotLoadInfiniteMap))
      else if orientation m \<noteq> ''orthogonal''
      then (m, initial_world, Inl (UnsupportedError (UnsupportedMapOrientation (orientation m))))
      else
        (case load_tile_colliders m initial_world of
           (s, Inl e) \<Rightarrow> (m, s, Inl e)
         | (s, Inr _) \<Rightarrow> MapLoader_load_map tio m s))"

section \<open>Vocabulary of the statements\<close>

text \<open>The mask both \<^verbatim>\<open>extract_tile_transform\<close> and \<^verbatim>\<open>find_source\<close> clear.\<close>

definition ALL_FLAGS :: int where
  "ALL_FLAGS = HORIZONTAL_FLIP_FLAG OR DIAGONAL_FLIP_FLAG OR VERTICAL_FLIP_FLAG
               OR HEXAGONAL_ROTATION_FLAG"

text \<open>A subset of the four flag bits, one boolean per flag.\<close>

definition flag_bits :: "bool \<Rightarrow> bool \<Rightarrow> bool \<Rightarrow> bool \<Rightarrow> int" where
  "flag_bits h v d x =
     (if h then HORIZONTAL_FLIP_FLAG else 0) OR (if v then VERTICAL_FLIP_FLAG else 0)
     OR (if d then DIAGONAL_FLIP_FLAG else 0) OR (if x then HEXAGONAL_ROTATION_FLAG else 0)"

text \<open>The texture coordinates a UV transform gives the six corners of the unit quad.\<close>

definition texcoords :: "LMatrix4 \<Rightarrow> (real \<times> real) list" where
  "texcoords uv_xform = map (\<lambda>xy. snd (quad_row ident_mat uv_xform xy)) quad_points"

definition in_unit_square :: "real \<times> real \<Rightarrow> bool" where
  "in_unit_square uv = (0 \<le> fst uv \<and> fst uv \<le> 1 \<and> 0 \<le> snd uv \<and> snd uv \<le> 1)"

text \<open>Whether a tile of a tileset carries object-layer metadata.\<close>

definition carries_objects :: "tile \<Rightarrow> bool" where
  "carries_objects t = (case objects t of Some (ObjectLayer nm objs) \<Rightarrow> True | _ \<Rightarrow> False)"

text \<open>
  The texture coordinates of the quad of gid \<open>g\<close> when it is looked up in tileset \<open>ts\<close>,
  and the meshes of a layer's node: the geoms of its children.
\<close>

definition tile_texcoords :: "tileset \<Rightarrow> int \<Rightarrow> (real \<times> real) list" where
  "tile_texcoords ts g =
     (case get_tile_uv_transform ts (fst (extract_tile_transform g) - firstgid ts) of
        Inl e \<Rightarrow> []
      | Inr uv_xform \<Rightarrow> texcoords uv_xform)"

definition layer_meshes :: "node \<Rightarrow> (geom \<times> render_state) list" where
  "layer_meshes nd = concat (map (\<lambda>c. case kind c of GeomNode gs \<Rightarrow> gs | _ \<Rightarrow> []) (children nd))"

text \<open>
  The tile-layer composer as the specification words it, for comparison with
  \<open>load_tile_layer\<close>: the arranger's tileset is the second tileset the map declares.
\<close>

definition second_declared_tileset :: "tiled_map \<Rightarrow> tileset option" where
  "second_declared_tileset m = (case tilesets m of _ # (k, ts) # _ \<Rightarrow> Some ts | _ \<Rightarrow> None)"

definition load_tile_layer_second_declared ::
  "texture_reader \<Rightarrow> tiled_map \<Rightarrow> layer \<Rightarrow> world \<Rightarrow> world \<times> (error + node)" where
  "load_tile_layer_second_declared tio m l s =
     (let s = made s;
          layer_node = new_node (layer_name l) PandaNode;
          s = made s;
          collider_parent = new_node ''cluster_collider'' PandaNode
      in case second_declared_tileset m of
           None \<Rightarrow> (s, Inl (KeyError 1))
         | Some ts \<Rightarrow> compose_tile_layer tio m ts l layer_node collider_parent s)"

text \<open>
  The scale each collision node under a node ends up with: the product of the scales
  on the path from the root to it, starting from the scale \<open>(ax, ay, az)\<close> above the
  root.  A collision solid's dimensions are multiplied by it.
\<close>

fun collider_scales :: "vec3 \<Rightarrow> node \<Rightarrow> vec3 list" where
  "collider_scales (ax, ay, az) (Node nm k p (sx, sy, sz) r st cs) =
     (let net = (ax * sx, ay * sy, az * sz)
      in (case k of CollisionNode solids \<Rightarrow> [net] | _ \<Rightarrow> [])
         @ concat (map (collider_scales net) cs))"




text \<open>
  The collider attachments of a tile layer's node: the children of the
  \<^verbatim>\<open>cluster_collider\<close> node, which is the child of the layer's mesh node.
\<close>

definition collider_attachments :: "node \<Rightarrow> node list" where
  "collider_attachments nd = concat (map children (concat (map children (children nd))))"

text \<open>
  A document as the map format has it: every tileset's first gid is positive and every
  tile id is non-negative, so that gid 0 is no tile's.
\<close>

definition positive_gids :: "tiled_map \<Rightarrow> bool" where
  "positive_gids m =
     list_all (\<lambda>ts. 0 < firstgid ts
                 \<and> list_all (\<lambda>kt. 0 \<le> tile_id (snd kt)) (case tiles ts of None \<Rightarrow> [] | Some d \<Rightarrow> d))
       (map snd (tilesets m))"

section \<open>Example documents\<close>

text \<open>
  Tilesets of 32 by 32 tiles in four columns, \<open>n\<close> tiles on a 128 pixel wide atlas; a
  tileset whose tile 4 carries one 32 by 16 rectangle; and a map of the two.
\<close>

definition atlas_tileset :: "string \<Rightarrow> int \<Rightarrow> int \<Rightarrow> tileset" where
  "atlas_tileset nm fg n =
     \<lparr>tileset_name = nm, firstgid = fg, tile_count = n, tile_width = 32, tile_height = 32,
      margin = 0, spacing = 0, columns = 4, image_path = Some (Path False [nm @ ''.png'']),
      image_width = Some 128, image_height = Some (32 * ((n + 3) div 4)), tiles = None\<rparr>"

definition rectangle_object :: "real \<Rightarrow> real \<Rightarrow> tiled_object" where
  "rectangle_object w h =
     \<lparr>obj_name = ''box'', coordinates = (0, 0), obj_size = (w, h), rotation = 0, shape = Rectangle\<rparr>"

definition collider_tileset :: tileset where
  "collider_tileset =
     (atlas_tileset ''terrain'' 1 10)
       \<lparr>tiles := Some [(0, \<lparr>tile_id = 0, objects = None\<rparr>),
                       (4, \<lparr>tile_id = 4,
                            objects = Some (ObjectLayer ''hitbox'' [rectangle_object 32 16])\<rparr>)]\<rparr>"

definition example_reader :: texture_reader where
  "example_reader opt p =
     \<lparr>x_size = 128, y_size = 64, orig_file_x_size = 128, orig_file_y_size = 64,
      num_components = (if p = Path False [''terrain.png''] then 4 else 3),
      magfilter = FT_default, alpha_fill = None\<rparr>"

definition example_map :: tiled_map where
  "example_map =
     \<lparr>map_file = Path False [''maps'', ''level.tmx''], infinite_flag = False,
      orientation = ''orthogonal'', tile_size = (32, 32),
      tilesets = [(1, collider_tileset), (11, atlas_tileset ''props'' 11 5)],
      layers = [TileLayer ''ground'' (Some [[5, 0]]),
                ImageLayer ''sky'' (Path False [''bg.png'']) (1 / 2)]\<rparr>"

text \<open>
  A tile object of gid 5 drawn at 64 by 64, twice the map's tile size, and the state
  after the colliders of the example map are loaded.
\<close>

definition crate_object :: tiled_object where
  "crate_object =
     \<lparr>obj_name = ''crate'', coordinates = (96, 160), obj_size = (64, 64), rotation = 90,
      shape = Tile 5\<rparr>"

definition loaded_world :: world where
  "loaded_world = fst (load_tile_colliders example_map initial_world)"


definition zero_gid_map :: tiled_map where
  "zero_gid_map =
     example_map
       \<lparr>tilesets :=
          [(0, (atlas_tileset ''void'' 0 1)
                 \<lparr>tiles := Some [(0, \<lparr>tile_id = 0,
                                        objects = Some (ObjectLayer ''hitbox''
                                                          [rectangle_object 32 16])\<rparr>)]\<rparr>),
           (1, atlas_tileset ''terrain'' 1 10)]\<rparr>"

definition zero_gid_world :: world where
  "zero_gid_world = fst (load_tile_colliders zero_gid_map initial_world)"

section \<open>Flag bits and tileset lookup\<close>

lemmas flag_defs = HORIZONTAL_FLIP_FLAG_def VERTICAL_FLIP_FLAG_def DIAGONAL_FLIP_FLAG_def
  HEXAGONAL_ROTATION_FLAG_def

lemma flag_bits_cleared: "flag_bits h v d x AND NOT ALL_FLAGS = 0"
  by (cases h; cases v; cases d; cases x; simp add: flag_bits_def ALL_FLAGS_def flag_defs)

lemma clear_set_flags: "(gid OR flag_bits h v d x) AND NOT ALL_FLAGS = gid AND NOT ALL_FLAGS"
  by (simp add: bit.conj_disj_distrib2 flag_bits_cleared)

lemma clear_idem: "(gid AND NOT ALL_FLAGS) AND NOT ALL_FLAGS = gid AND NOT ALL_FLAGS"
  by (simp add: and.assoc)

lemma cleared_no_flags: "(g AND NOT ALL_FLAGS) AND ALL_FLAGS = 0"
  by (simp add: and.assoc)

lemma find_source_alt:
  "find_source m gid = find_source_scan (gid AND NOT ALL_FLAGS) (map snd (tilesets m))"
  by (simp only: find_source_def Let_def ALL_FLAGS_def)

lemma extract_tile_transform_gid: "fst (extract_tile_transform g) = g AND NOT ALL_FLAGS"
  by (simp only: extract_tile_transform_def Let_def ALL_FLAGS_def fst_conv)

lemma find_source_scan_find:
  "find_source_scan g tss =
     (case List.find (\<lambda>ts. 0 \<le> g - firstgid ts \<and> g - firstgid ts < tile_count ts) tss of
        None \<Rightarrow> Inl (CouldNotFindTileset g) | Some ts \<Rightarrow> Inr ts)"
  by (induction tss) simp_all

text \<open>
  Claim C2.  \<open>find_source\<close> clears the four flag bits and returns the first tileset, in
  declaration order, whose range holds the cleaned id: \<open>0 \<le> cleaned - firstgid < tile_count\<close>;
  it raises the lookup error, carrying the cleaned id, exactly when there is none.  On a
  map whose tilesets are \<open>a\<close> (firstgid 1, 10 tiles) and \<open>b\<close> (firstgid 11, 5 tiles), gid 15
  resolves to \<open>b\<close>, and gids 0 and 100 raise the lookup error.
\<close>

theorem find_source_first_in_range:
  assumes "map snd (tilesets m2) = [a, b]"
    and "firstgid a = 1" and "tile_count a = 10" and "firstgid b = 11" and "tile_count b = 5"
  shows "find_source m gid =
           (case List.find (\<lambda>ts. 0 \<le> (gid AND NOT ALL_FLAGS) - firstgid ts
                                  \<and> (gid AND NOT ALL_FLAGS) - firstgid ts < tile_count ts)
                   (map snd (tilesets m)) of
              None \<Rightarrow> Inl (CouldNotFindTileset (gid AND NOT ALL_FLAGS))
            | Some ts \<Rightarrow> Inr ts)
         \<and> find_source m2 15 = Inr b
         \<and> find_source m2 0 = Inl (CouldNotFindTileset 0)
         \<and> find_source m2 100 = Inl (CouldNotFindTileset 100)"
proof -
  have general: "find_source m gid =
           (case List.find (\<lambda>ts. 0 \<le> (gid AND NOT ALL_FLAGS) - firstgid ts
                                  \<and> (gid AND NOT ALL_FLAGS) - firstgid ts < tile_count ts)
                   (map snd (tilesets m)) of
              None \<Rightarrow> Inl (CouldNotFindTileset (gid AND NOT ALL_FLAGS))
            | Some ts \<Rightarrow> Inr ts)"
    by (simp only: find_source_alt find_source_scan_find)
  have c15: "find_source m2 15 = Inr b"
    using assms by (simp add: find_source_def flag_defs)
  have c0: "find_source m2 0 = Inl (CouldNotFindTileset 0)"
    using assms by (simp add: find_source_def flag_defs)
  have c100: "find_source m2 100 = Inl (CouldNotFindTileset 100)"
    using assms by (simp add: find_source_def flag_defs)
  from general c15 c0 c100 show ?thesis by blast
qed

theorem find_source_first_in_range_witness:
  "find_source example_map 15 = Inr (atlas_tileset ''props'' 11 5)
   \<and> find_source example_map 0 = Inl (CouldNotFindTileset 0)
   \<and> find_source example_map 100 = Inl (CouldNotFindTileset 100)"
proof -
  have "map snd (tilesets example_map) = [collider_tileset, atlas_tileset ''props'' 11 5]"
    and "firstgid collider_tileset = 1" and "tile_count collider_tileset = 10"
    and "firstgid (atlas_tileset ''props'' 11 5) = 11"
    and "tile_count (atlas_tileset ''props'' 11 5) = 5"
    by (simp_all add: example_map_def collider_tileset_def atlas_tileset_def)
  from find_source_first_in_range [OF this] show ?thesis by blast
qed

text \<open>
  Claim C10.  \<open>find_source\<close> does not see the flag bits: setting any subset of the four
  flags in a gid gives the result (the tileset, or the lookup error with its payload)
  of the gid with all four flags cleared.
\<close>

theorem find_source_flag_invariant:
  "find_source m (gid OR flag_bits h v d x) = find_source m (gid AND NOT ALL_FLAGS)"
  by (simp only: find_source_alt clear_set_flags clear_idem)

section \<open>Transform codec\<close>

text \<open>
  Claim C4.  When none of the diagonal, horizontal and vertical flip bits of a gid is
  set, \<open>extract_tile_transform\<close> returns the identity transform (it moves no point) and
  the gid with the four flag bits cleared, the hexagonal one among them; and for every
  gid \<open>g\<close> the returned gid is \<open>g\<close> with the four flag bits masked out, so none of them
  is set in it.
\<close>

theorem extract_tile_transform_no_flip:
  assumes "gid AND DIAGONAL_FLIP_FLAG = 0" and "gid AND HORIZONTAL_FLIP_FLAG = 0"
    and "gid AND VERTICAL_FLIP_FLAG = 0"
  shows "extract_tile_transform gid = (gid AND NOT ALL_FLAGS, ident_mat)
         \<and> xform_point (snd (extract_tile_transform gid)) p = p
         \<and> fst (extract_tile_transform g) = g AND NOT ALL_FLAGS
         \<and> fst (extract_tile_transform g) AND ALL_FLAGS = 0"
proof -
  have "snd (extract_tile_transform gid) = ident_mat"
    using assms by (simp add: extract_tile_transform_def Let_def)
  then have "extract_tile_transform gid = (gid AND NOT ALL_FLAGS, ident_mat)"
    using extract_tile_transform_gid [of gid] by (simp add: prod_eq_iff)
  then show ?thesis
    by (simp add: extract_tile_transform_gid cleared_no_flags ident_mat_def)
qed

theorem extract_tile_transform_no_flip_witness:
  "extract_tile_transform 0x10000005 = (5, ident_mat)
   \<and> fst (extract_tile_transform 0xF0000007) = 7"
proof -
  have "(0x10000005 :: int) AND DIAGONAL_FLIP_FLAG = 0"
    and "(0x10000005 :: int) AND HORIZONTAL_FLIP_FLAG = 0"
    and "(0x10000005 :: int) AND VERTICAL_FLIP_FLAG = 0"
    by (simp_all add: flag_defs)
  from extract_tile_transform_no_flip [OF this, of _ "0xF0000007"]
  show ?thesis by (simp add: ALL_FLAGS_def flag_defs)
qed

section \<open>Atlas mapper\<close>

text \<open>
  Claim C7.  For a tileset with 32 by 32 tiles, no margin, no spacing, 4 columns and a
  128 by 64 atlas image, local tile index 5 is divided by the column count into row 1,
  column 1; its pixel origin is (32, 32); and the UV transform sends the six corners of
  the unit quad to the listed coordinates, all of them inside the unit square.
\<close>

theorem atlas_mapper_tile_5:
  assumes "tile_width ts = 32" and "tile_height ts = 32" and "margin ts = 0" and "spacing ts = 0"
    and "columns ts = 4" and "image_width ts = Some 128" and "image_height ts = Some 64"
  shows "tile_row_column ts 5 = (5 div 4, 5 mod 4) \<and> tile_row_column ts 5 = (1, 1)
         \<and> tile_start ts 5 = (32, 32)
         \<and> get_tile_uv_transform ts 5 =
             Inr (scale_mat 32 1 32 @ translate_mat 0 0 32 @ translate_mat 32 0 (-32)
                  @ scale_mat (1 / 128) 1 (1 / 64))
         \<and> map_sum id texcoords (get_tile_uv_transform ts 5) =
             Inr [(1 / 4, 0), (1 / 4, 1 / 2), (1 / 2, 1 / 2), (1 / 2, 1 / 2), (1 / 2, 0), (1 / 4, 0)]
         \<and> map_sum id (list_all in_unit_square \<circ> texcoords) (get_tile_uv_transform ts 5) = Inr True"
proof -
  have rc: "tile_row_column ts 5 = (1, 1)"
    using assms by (simp add: tile_row_column_def)
  have st: "tile_start ts 5 = (32, 32)"
    using assms by (simp add: tile_start_def rc)
  have uv: "get_tile_uv_transform ts 5 =
             Inr (scale_mat 32 1 32 @ translate_mat 0 0 32 @ translate_mat 32 0 (-32)
                  @ scale_mat (1 / 128) 1 (1 / 64))"
    using assms by (simp add: get_tile_uv_transform_def st)
  have tc: "texcoords (scale_mat 32 1 32 @ translate_mat 0 0 32 @ translate_mat 32 0 (-32)
                  @ scale_mat (1 / 128) 1 (1 / 64)) =
            [(1 / 4, 0), (1 / 4, 1 / 2), (1 / 2, 1 / 2), (1 / 2, 1 / 2), (1 / 2, 0), (1 / 4, 0)]"
    by (simp add: texcoords_def quad_points_def quad_row_def scale_mat_def translate_mat_def)
  show ?thesis
    using rc by (simp add: st uv tc in_unit_square_def)
qed

theorem atlas_mapper_tile_5_witness:
  "tile_start (atlas_tileset ''props'' 11 5) 5 = (32, 32)
   \<and> map_sum id (list_all in_unit_square \<circ> texcoords)
        (get_tile_uv_transform (atlas_tileset ''props'' 11 5) 5) = Inr True"
proof -
  have "tile_width (atlas_tileset ''props'' 11 5) = 32"
    and "tile_height (atlas_tileset ''props'' 11 5) = 32"
    and "margin (atlas_tileset ''props'' 11 5) = 0"
    and "spacing (atlas_tileset ''props'' 11 5) = 0"
    and "columns (atlas_tileset ''props'' 11 5) = 4"
    and "image_width (atlas_tileset ''props'' 11 5) = Some 128"
    and "image_height (atlas_tileset ''props'' 11 5) = Some 64"
    by (simp_all add: atlas_tileset_def)
  from atlas_mapper_tile_5 [OF this] show ?thesis by blast
qed

section \<open>Map assembler\<close>

text \<open>
  Claim C1.  When the document's infinite flag is set or its orientation is not
  \<open>orthogonal\<close>, the module's \<open>load_map\<close> raises \<open>UnsupportedError\<close> (for the infinite map
  first), with no scene node constructed, no entry in the collider registry and the
  document as it was.
\<close>

theorem load_map_rejects_unsupported:
  assumes "infinite_flag m \<or> orientation m \<noteq> ''orthogonal''"
  shows "load_map tio m =
           (m, initial_world,
            Inl (UnsupportedError (if infinite_flag m then CannotLoadInfiniteMap
                                   else UnsupportedMapOrientation (orientation m))))
         \<and> nodes_made (fst (snd (load_map tio m))) = 0
         \<and> colliders (fst (snd (load_map tio m))) = Map.empty
         \<and> fst (load_map tio m) = m"
  using assms by (auto simp add: load_map_def initial_world_def)

theorem load_map_rejects_unsupported_witness:
  "load_map example_reader (example_map\<lparr>orientation := ''isometric''\<rparr>) =
     (example_map\<lparr>orientation := ''isometric''\<rparr>, initial_world,
      Inl (UnsupportedError (UnsupportedMapOrientation ''isometric'')))
   \<and> load_map example_reader (example_map\<lparr>infinite_flag := True\<rparr>) =
     (example_map\<lparr>infinite_flag := True\<rparr>, initial_world,
      Inl (UnsupportedError CannotLoadInfiniteMap))"
  using load_map_rejects_unsupported [of "example_map\<lparr>orientation := ''isometric''\<rparr>" example_reader]
    load_map_rejects_unsupported [of "example_map\<lparr>infinite_flag := True\<rparr>" example_reader]
  by (simp add: example_map_def)

section \<open>Collider registry\<close>

lemma load_colliders_tiles_skip:
  "list_all (\<lambda>t. \<not> carries_objects t) ts \<Longrightarrow> load_colliders_tiles fg ts s = (s, Inr ())"
  by (induction ts) (auto simp add: carries_objects_def split: option.splits layer.splits)

lemma load_colliders_tiles_append:
  "load_colliders_tiles fg (xs @ ys) s =
     (case load_colliders_tiles fg xs s of
        (s', Inl e) \<Rightarrow> (s', Inl e)
      | (s', Inr u) \<Rightarrow> load_colliders_tiles fg ys s')"
  by (induction xs arbitrary: s)
     (auto simp add: Let_def split: option.splits layer.splits sum.splits prod.splits)

text \<open>
  Claim C8.  On a tileset in which exactly one tile \<open>t\<close> carries object-layer metadata,
  a single rectangle of size (32, 16), \<open>load_colliders\<close> run on the empty registry
  leaves exactly one entry, under \<open>firstgid + tile_id t\<close> (a collision node with the one
  box); \<open>get_collider\<close> is \<open>None\<close> at every other gid.
\<close>

theorem load_colliders_single_rectangle:
  assumes "tiles ts = Some (pre @ (k, t) # post)"
    and "objects t = Some (ObjectLayer nm [rect])"
    and "shape rect = Rectangle" and "obj_size rect = (32, 16)"
    and "list_all (\<lambda>kt. \<not> carries_objects (snd kt)) (pre @ post)"
  shows "load_colliders ts initial_world =
           (\<lparr>colliders = [firstgid ts + tile_id t \<mapsto>
                new_node ''collision_node'' (CollisionNode [CollisionBox (0, -16, -16) (32, 16, 0)])],
             nodes_made = 1\<rparr>, Inr ())
         \<and> dom (colliders (fst (load_colliders ts initial_world))) = {firstgid ts + tile_id t}
         \<and> (\<forall>gid. gid \<noteq> firstgid ts + tile_id t \<longrightarrow>
               get_collider (fst (load_colliders ts initial_world)) gid = None)"
proof -
  have pre: "list_all (\<lambda>t. \<not> carries_objects t) (map snd pre)"
    and post: "list_all (\<lambda>t. \<not> carries_objects t) (map snd post)"
    using assms(5) by (simp_all add: list_all_iff)
  have solids: "load_solids [rect] = Inr [CollisionBox (0, -16, -16) (32, 16, 0)]"
    using assms(3,4) by (simp add: load_collider_def)
  have "load_colliders ts initial_world =
          load_colliders_tiles (firstgid ts) (map snd pre @ t # map snd post) initial_world"
    using assms(1) by (simp add: load_colliders_def)
  also have "\<dots> = (\<lparr>colliders = [firstgid ts + tile_id t \<mapsto>
                new_node ''collision_node'' (CollisionNode [CollisionBox (0, -16, -16) (32, 16, 0)])],
             nodes_made = 1\<rparr>, Inr ())"
    using assms(2) solids
    by (simp add: load_colliders_tiles_append load_colliders_tiles_skip [OF pre]
        load_colliders_tiles_skip [OF post] made_def initial_world_def)
  finally show ?thesis by (simp add: get_collider_def)
qed

theorem load_colliders_single_rectangle_witness:
  "load_colliders collider_tileset initial_world =
     (\<lparr>colliders = [5 \<mapsto>
          new_node ''collision_node'' (CollisionNode [CollisionBox (0, -16, -16) (32, 16, 0)])],
       nodes_made = 1\<rparr>, Inr ())
   \<and> get_collider (fst (load_colliders collider_tileset initial_world)) 4 = None"
proof -
  have "tiles collider_tileset =
          Some ([(0, \<lparr>tile_id = 0, objects = None\<rparr>)]
                @ (4, \<lparr>tile_id = 4,
                       objects = Some (ObjectLayer ''hitbox'' [rectangle_object 32 16])\<rparr>) # [])"
    and "objects \<lparr>tile_id = 4, objects = Some (ObjectLayer ''hitbox'' [rectangle_object 32 16])\<rparr>
           = Some (ObjectLayer ''hitbox'' [rectangle_object 32 16])"
    and "shape (rectangle_object 32 16) = Rectangle"
    and "obj_size (rectangle_object 32 16) = (32, 16)"
    and "list_all (\<lambda>kt. \<not> carries_objects (snd kt)) ([(0, \<lparr>tile_id = 0, objects = None\<rparr>)] @ [])"
    by (simp_all add: collider_tileset_def atlas_tileset_def rectangle_object_def carries_objects_def)
  note r = load_colliders_single_rectangle [OF this]
  have k: "firstgid collider_tileset
             + tile_id \<lparr>tile_id = 4,
                        objects = Some (ObjectLayer ''hitbox'' [rectangle_object 32 16])\<rparr> = 5"
    by (simp add: collider_tileset_def atlas_tileset_def)
  from r have "get_collider (fst (load_colliders collider_tileset initial_world)) 4 = None"
    unfolding k by (simp add: get_collider_def)
  moreover from r have "load_colliders collider_tileset initial_world =
     (\<lparr>colliders = [5 \<mapsto>
          new_node ''collision_node'' (CollisionNode [CollisionBox (0, -16, -16) (32, 16, 0)])],
       nodes_made = 1\<rparr>, Inr ())"
    unfolding k by blast
  ultimately show ?thesis by blast
qed

text \<open>
  No registry loaded from a document with positive first gids and non-negative tile ids
  has an entry under gid 0.
\<close>

lemma load_colliders_tiles_no_zero:
  assumes "0 < fg" and "list_all (\<lambda>t. 0 \<le> tile_id t) ts" and "colliders s 0 = None"
  shows "colliders (fst (load_colliders_tiles fg ts s)) 0 = None"
  using assms
proof (induction ts arbitrary: s)
  case Nil
  then show ?case by simp
next
  case (Cons t ts)
  from Cons.prems have key: "fg + tile_id t \<noteq> 0" by simp
  have step: "colliders (fst (load_colliders_tiles fg ts s')) 0 = None"
    if "colliders s' 0 = None" for s'
    using Cons.IH [of s'] Cons.prems that by simp
  show ?case
    using Cons.prems(3) key step
    by (auto simp add: Let_def made_def split: option.splits layer.splits sum.splits intro!: step)
qed

lemma load_tile_colliders_scan_no_zero:
  assumes "list_all (\<lambda>ts. 0 < firstgid ts
                 \<and> list_all (\<lambda>kt. 0 \<le> tile_id (snd kt)) (case tiles ts of None \<Rightarrow> [] | Some d \<Rightarrow> d))
             tss"
    and "colliders s 0 = None"
  shows "colliders (fst (load_tile_colliders_scan tss s)) 0 = None"
  using assms
proof (induction tss arbitrary: s)
  case Nil
  then show ?case by simp
next
  case (Cons ts tss)
  have one: "colliders (fst (load_colliders ts s)) 0 = None"
  proof (cases "tiles ts")
    case None
    with Cons.prems show ?thesis by (simp add: load_colliders_def)
  next
    case (Some d)
    with Cons.prems have "0 < firstgid ts" and "list_all (\<lambda>t. 0 \<le> tile_id t) (map snd d)"
      by (auto simp add: list_all_iff)
    from load_colliders_tiles_no_zero [OF this Cons.prems(2)] Some
    show ?thesis by (simp add: load_colliders_def)
  qed
  obtain s1 r1 where c: "load_colliders ts s = (s1, r1)"
    by (cases "load_colliders ts s")
  with one have s1: "colliders s1 0 = None" by simp
  from Cons.prems(1) have rest: "list_all (\<lambda>ts. 0 < firstgid ts
                 \<and> list_all (\<lambda>kt. 0 \<le> tile_id (snd kt)) (case tiles ts of None \<Rightarrow> [] | Some d \<Rightarrow> d))
             tss" by simp
  from Cons.IH [OF rest s1] c s1 show ?case
    by (cases r1) simp_all
qed

lemma load_tile_colliders_no_zero:
  assumes "positive_gids m"
  shows "get_collider (fst (load_tile_colliders m initial_world)) 0 = None"
  using load_tile_colliders_scan_no_zero [of "map snd (tilesets m)" initial_world] assms
  by (simp add: positive_gids_def load_tile_colliders_def get_collider_def initial_world_def)

lemmas example_defs = example_map_def collider_tileset_def atlas_tileset_def example_reader_def
  rectangle_object_def

lemma loaded_world_eq:
  "loaded_world = \<lparr>colliders = [5 \<mapsto> new_node ''collision_node''
       (CollisionNode [CollisionBox (0, -16, -16) (32, 16, 0)])], nodes_made = 1\<rparr>"
  by (simp add: loaded_world_def load_tile_colliders_def load_colliders_def example_defs
      load_collider_def made_def initial_world_def)

lemma positive_gids_example: "positive_gids example_map"
  by (simp add: positive_gids_def example_defs)

section \<open>Tile layers\<close>

lemmas tile_defs = TileArranger_add_tile_def TileGeomBuilder_add_tile_def extract_tile_transform_def
  get_tile_uv_transform_def tile_start_def tile_row_column_def flag_defs generate_node_def
  load_tileset_image_def generate_geom_def make_render_state_def get_collider_def
  initial_world_def made_def new_node_def Let_def quad_points_def quad_row_def scale_mat_def
  translate_mat_def ident_mat_def

lemma load_tile_layer_alt:
  "load_tile_layer tio m l s =
     (case map_of (tilesets m) 1 of
        None \<Rightarrow> (made (made s), Inl (KeyError 1))
      | Some ts \<Rightarrow>
          compose_tile_layer tio m ts l (new_node (layer_name l) PandaNode)
            (new_node ''cluster_collider'' PandaNode) (made (made s)))"
  by (simp add: load_tile_layer_def Let_def)

lemma get_tile_uv_transform_ok:
  assumes "image_width ts = Some iw" and "image_height ts = Some ih" and "iw \<noteq> 0" and "ih \<noteq> 0"
    and "columns ts \<noteq> 0"
  shows "\<exists>uv. get_tile_uv_transform ts tid = Inr uv"
  using assms by (simp add: get_tile_uv_transform_def Let_def split: prod.splits)

lemma add_tile_empty_cell: "TileArranger_add_tile ts 0 x y vd = Inr vd"
  by (simp add: TileArranger_add_tile_def)

lemma extract_tile_transform_5: "extract_tile_transform 5 = (5, ident_mat)"
  by (simp add: extract_tile_transform_def flag_defs)

lemma zero_gid_world_eq:
  "zero_gid_world = \<lparr>colliders = [0 \<mapsto> new_node ''collision_node''
       (CollisionNode [CollisionBox (0, -16, -16) (32, 16, 0)])], nodes_made = 1\<rparr>"
  by (simp add: zero_gid_world_def zero_gid_map_def load_tile_colliders_def load_colliders_def
      example_defs load_collider_def made_def initial_world_def)

text \<open>
  Claim C9.  The mesh of the 2 by 1 tile layer with gids [5, 0] has exactly 6 vertices,
  the empty cell adding none.  The collider part of the claim is not what the code
  does: \<^verbatim>\<open>load_tile_layer\<close> looks every cell's gid up in the registry, the empty
  cell's too (only \<^verbatim>\<open>TileArranger.add_tile\<close> skips gid 0).  On the map whose first
  tileset is declared with first gid 0 and has a collider on its tile 0, the registry
  has an entry under gid 0 and none under gid 5, and the layer [5, 0] gets one collider
  attachment, at the empty cell, where the layer [5] gets none.
\<close>

theorem tile_layer_empty_cell_collider:
  "get_collider zero_gid_world 5 = None
   \<and> map_sum id collider_attachments
        (snd (load_tile_layer example_reader zero_gid_map (TileLayer ''ground'' (Some [[5, 0]]))
                zero_gid_world))
       = Inr [Node ''collider_location'' PandaNode (32, 0, 0) (1, 1, 1) 0 None
                [new_node ''collision_node''
                   (CollisionNode [CollisionBox (0, -16, -16) (32, 16, 0)])]]
   \<and> map_sum id collider_attachments
        (snd (load_tile_layer example_reader zero_gid_map (TileLayer ''ground'' (Some [[5]]))
                zero_gid_world))
       = Inr []
   \<and> map_sum id (map (\<lambda>g. length (vertex_data (fst g))) \<circ> layer_meshes)
        (snd (load_tile_layer example_reader zero_gid_map (TileLayer ''ground'' (Some [[5, 0]]))
                zero_gid_world))
       = Inr [6]"
  by (simp add: zero_gid_world_eq zero_gid_map_def load_tile_layer_alt compose_tile_layer_def
      example_defs tile_defs collider_attachments_def layer_meshes_def)

text \<open>
  Where the registry has no entry under gid 0, as in every registry loaded from a
  document with positive first gids (\<open>load_tile_colliders_no_zero\<close>), and the tileset
  under key 1 has an image, non-zero image dimensions and a non-zero column count (else
  the composer raises), the layer [5, 0] is composed as the layer [5]: one mesh of 6
  vertices, and one collider attachment if gid 5 has a registry entry, none otherwise.
\<close>

lemma tile_layer_two_cells:
  assumes "map_of (tilesets m) 1 = Some ts" and "image_path ts = Some p"
    and "image_width ts = Some iw" and "image_height ts = Some ih" and "iw \<noteq> 0" and "ih \<noteq> 0"
    and "columns ts \<noteq> 0" and "get_collider s 0 = None"
  shows "(\<exists>s' vd.
           load_tile_layer tio m (TileLayer nm (Some [[5, 0]])) s =
             (s', Inr (Node nm PandaNode (0, 0, 0) (1, 1, 1) 0 None
                [Node ''tile''
                   (GeomNode [(\<lparr>vertex_data = vd, primitive_vertices = 6\<rparr>,
                               make_render_state ((tio ATS_none p)\<lparr>magfilter := FT_nearest\<rparr>))])
                   (0, 0, 0) (1, 1, 1) 0 None
                   [Node ''cluster_collider'' PandaNode (0, 0, 0) (1, 1, 1) 0 None
                      (case get_collider s 5 of
                         None \<Rightarrow> []
                       | Some c \<Rightarrow> [Node ''collider_location'' PandaNode (0, 0, 0) (1, 1, 1) 0 None [c]])]]))
           \<and> length vd = 6
           \<and> colliders s' = colliders s
           \<and> nodes_made s' = nodes_made s + 3 + (case get_collider s 5 of None \<Rightarrow> 0 | Some c \<Rightarrow> 1))
         \<and> load_tile_layer tio m (TileLayer nm (Some [[5, 0]])) s
             = load_tile_layer tio m (TileLayer nm (Some [[5]])) s"
proof -
  obtain uv where uv: "get_tile_uv_transform ts (5 - firstgid ts) = Inr uv"
    using get_tile_uv_transform_ok [OF assms(3,4,5,6,7)] by blast
  define vd where "vd = TileGeomBuilder_add_tile
      (ident_mat @ (translate_mat 0 0 (-1) @ scale_mat (real_of_int (tile_width ts)) 1
         (real_of_int (tile_height ts)))) uv []"
  have len: "length vd = 6"
    by (simp add: vd_def TileGeomBuilder_add_tile_def quad_points_def)
  have add: "TileArranger_add_tile ts 5 0 0 [] = Inr vd"
    by (simp add: TileArranger_add_tile_def extract_tile_transform_5 uv vd_def)
  have five: "get_collider (made (made s)) 5 = get_collider s 5"
    by (simp add: get_collider_def made_def)
  show ?thesis
  proof (cases "get_collider s 5")
    case None
    then show ?thesis
      using assms(1,2,8) len add five
      by (simp add: load_tile_layer_alt compose_tile_layer_def add_tile_empty_cell generate_node_def
          load_tileset_image_def generate_geom_def new_node_def made_def get_collider_def)
  next
    case (Some c)
    then show ?thesis
      using assms(1,2,8) len add five
      by (simp add: load_tile_layer_alt compose_tile_layer_def add_tile_empty_cell generate_node_def
          load_tileset_image_def generate_geom_def new_node_def made_def get_collider_def Let_def)
  qed
qed

lemma tile_layer_two_cells_example:
  "(\<exists>s' vd.
      load_tile_layer example_reader example_map (TileLayer ''ground'' (Some [[5, 0]])) loaded_world =
        (s', Inr (Node ''ground'' PandaNode (0, 0, 0) (1, 1, 1) 0 None
           [Node ''tile''
              (GeomNode [(\<lparr>vertex_data = vd, primitive_vertices = 6\<rparr>,
                          make_render_state
                            ((example_reader ATS_none (Path False [''terrain.png'']))
                               \<lparr>magfilter := FT_nearest\<rparr>))])
              (0, 0, 0) (1, 1, 1) 0 None
              [Node ''cluster_collider'' PandaNode (0, 0, 0) (1, 1, 1) 0 None
                 [Node ''collider_location'' PandaNode (0, 0, 0) (1, 1, 1) 0 None
                    [new_node ''collision_node''
                       (CollisionNode [CollisionBox (0, -16, -16) (32, 16, 0)])]]]]))
      \<and> length vd = 6 \<and> nodes_made s' = 5)
   \<and> load_tile_layer example_reader example_map (TileLayer ''ground'' (Some [[5, 0]])) loaded_world
       = load_tile_layer example_reader example_map (TileLayer ''ground'' (Some [[5]])) loaded_world"
proof -
  have "map_of (tilesets example_map) 1 = Some collider_tileset"
    and "image_path collider_tileset = Some (Path False [''terrain.png''])"
    and "image_width collider_tileset = Some 128" and "image_height collider_tileset = Some 96"
    and "(128 :: int) \<noteq> 0" and "(96 :: int) \<noteq> 0" and "columns collider_tileset \<noteq> 0"
    by (simp_all add: example_defs)
  moreover have "get_collider loaded_world 0 = None"
    using load_tile_colliders_no_zero [OF positive_gids_example] by (simp add: loaded_world_def)
  ultimately have r: "(\<exists>s' vd.
           load_tile_layer example_reader example_map (TileLayer ''ground'' (Some [[5, 0]])) loaded_world =
             (s', Inr (Node ''ground'' PandaNode (0, 0, 0) (1, 1, 1) 0 None
                [Node ''tile''
                   (GeomNode [(\<lparr>vertex_data = vd, primitive_vertices = 6\<rparr>,
                               make_render_state
                                 ((example_reader ATS_none (Path False [''terrain.png'']))
                                    \<lparr>magfilter := FT_nearest\<rparr>))])
                   (0, 0, 0) (1, 1, 1) 0 None
                   [Node ''cluster_collider'' PandaNode (0, 0, 0) (1, 1, 1) 0 None
                      (case get_collider loaded_world 5 of
                         None \<Rightarrow> []
                       | Some c \<Rightarrow> [Node ''collider_location'' PandaNode (0, 0, 0) (1, 1, 1) 0 None [c]])]]))
           \<and> length vd = 6
           \<and> colliders s' = colliders loaded_world
           \<and> nodes_made s' = nodes_made loaded_world + 3
                + (case get_collider loaded_world 5 of None \<Rightarrow> 0 | Some c \<Rightarrow> 1))
         \<and> load_tile_layer example_reader example_map (TileLayer ''ground'' (Some [[5, 0]])) loaded_world
             = load_tile_layer example_reader example_map (TileLayer ''ground'' (Some [[5]])) loaded_world"
    by (rule tile_layer_two_cells)
  have c: "get_collider loaded_world 5
             = Some (new_node ''collision_node'' (CollisionNode [CollisionBox (0, -16, -16) (32, 16, 0)]))"
    and n: "nodes_made loaded_world = 1"
    by (simp_all add: loaded_world_eq get_collider_def)
  from r [unfolded c n option.case] obtain s' vd where
    "load_tile_layer example_reader example_map (TileLayer ''ground'' (Some [[5, 0]])) loaded_world =
        (s', Inr (Node ''ground'' PandaNode (0, 0, 0) (1, 1, 1) 0 None
           [Node ''tile''
              (GeomNode [(\<lparr>vertex_data = vd, primitive_vertices = 6\<rparr>,
                          make_render_state
                            ((example_reader ATS_none (Path False [''terrain.png'']))
                               \<lparr>magfilter := FT_nearest\<rparr>))])
              (0, 0, 0) (1, 1, 1) 0 None
              [Node ''cluster_collider'' PandaNode (0, 0, 0) (1, 1, 1) 0 None
                 [Node ''collider_location'' PandaNode (0, 0, 0) (1, 1, 1) 0 None
                    [new_node ''collision_node''
                       (CollisionNode [CollisionBox (0, -16, -16) (32, 16, 0)])]]]]))"
    and "length vd = 6" and "nodes_made s' = 1 + 3 + 1"
    by blast
  moreover from this have "nodes_made s' = 5" by simp
  moreover from r have
    "load_tile_layer example_reader example_map (TileLayer ''ground'' (Some [[5, 0]])) loaded_world
       = load_tile_layer example_reader example_map (TileLayer ''ground'' (Some [[5]])) loaded_world"
    by blast
  ultimately show ?thesis by blast
qed

section \<open>The tileset of a tile layer\<close>

lemma snd_quad_row: "snd (quad_row shape_xform uv_xform xy) = snd (quad_row ident_mat uv_xform xy)"
  by (simp add: quad_row_def split: prod.splits)

lemma add_tile_texcoords:
  assumes "TileArranger_add_tile ts g x y vd = Inr vd'"
  shows "map snd vd' = map snd vd @ (if g = 0 then [] else tile_texcoords ts g)"
  using assms
  by (auto simp add: TileArranger_add_tile_def tile_texcoords_def TileGeomBuilder_add_tile_def
      texcoords_def intro: snd_quad_row split: if_splits prod.splits sum.splits)

lemma load_tile_cells_texcoords:
  assumes "load_tile_cells ts sz j i row (vd, cp) s = (s', Inr (vd', cp'))"
  shows "map snd vd' = map snd vd @ concat (map (tile_texcoords ts) (filter (\<lambda>g. g \<noteq> 0) row))"
  using assms
proof (induction row arbitrary: i vd cp s)
  case Nil
  then show ?case by simp
next
  case (Cons g row)
  from Cons.prems obtain vd1 where a: "TileArranger_add_tile ts g (int i) (int j) vd = Inr vd1"
    by (auto split: sum.splits)
  from Cons.prems a obtain cp1 s1 where
    "load_tile_cells ts sz j (Suc i) row (vd1, cp1) s1 = (s', Inr (vd', cp'))"
    by (auto simp add: Let_def split: option.splits)
  from Cons.IH [OF this] add_tile_texcoords [OF a] show ?case by simp
qed

lemma load_tile_rows_texcoords:
  assumes "load_tile_rows ts sz j rows (vd, cp) s = (s', Inr (vd', cp'))"
  shows "map snd vd' =
           map snd vd @ concat (map (tile_texcoords ts) (filter (\<lambda>g. g \<noteq> 0) (concat rows)))"
  using assms
proof (induction rows arbitrary: j vd cp s)
  case Nil
  then show ?case by simp
next
  case (Cons row rows)
  from Cons.prems obtain s1 vd1 cp1 where a: "load_tile_cells ts sz j 0 row (vd, cp) s = (s1, Inr (vd1, cp1))"
    and b: "load_tile_rows ts sz (Suc j) rows (vd1, cp1) s1 = (s', Inr (vd', cp'))"
    by (auto split: prod.splits sum.splits)
  from Cons.IH [OF b] load_tile_cells_texcoords [OF a] show ?case by simp
qed

text \<open>
  Claim C3, as the code has it.  \<open>tilesets\<close> is a dictionary and \<^verbatim>\<open>tilesets[1]\<close> its entry
  under key 1, not the second tileset declared.  A tile layer's mesh is built from that
  one tileset, whichever tilesets own the layer's gids: without an entry under key 1
  the composer raises \<open>KeyError\<close>; when it returns, the layer's only mesh takes its
  texture from the image of the tileset under key 1 and the texture coordinates of every
  non-empty cell, in row-major order, from that tileset's atlas; and no other tileset of
  the map has any influence on the result.
\<close>

theorem load_tile_layer_tileset_key_1:
  "(map_of (tilesets m) 1 = None \<longrightarrow> snd (load_tile_layer tio m l s) = Inl (KeyError 1))
   \<and> (load_tile_layer tio m l s = (s', Inr nd) \<longrightarrow>
        (\<exists>ts tex vd. map_of (tilesets m) 1 = Some ts
           \<and> load_tileset_image tio ts = Inr tex
           \<and> layer_meshes nd = [(generate_geom vd, make_render_state tex)]
           \<and> map snd vd =
               concat (map (tile_texcoords ts)
                         (filter (\<lambda>g. g \<noteq> 0) (concat (case data l of None \<Rightarrow> [] | Some d \<Rightarrow> d))))))
   \<and> (map_of (tilesets m') 1 = map_of (tilesets m) 1 \<and> tile_size m' = tile_size m \<longrightarrow>
        load_tile_layer tio m' l s = load_tile_layer tio m l s)"
proof (intro conjI impI)
  assume "map_of (tilesets m) 1 = None"
  then show "snd (load_tile_layer tio m l s) = Inl (KeyError 1)"
    by (simp add: load_tile_layer_def)
next
  assume "map_of (tilesets m') 1 = map_of (tilesets m) 1 \<and> tile_size m' = tile_size m"
  then show "load_tile_layer tio m' l s = load_tile_layer tio m l s"
    by (simp add: load_tile_layer_alt compose_tile_layer_def split: option.splits)
next
  assume ok: "load_tile_layer tio m l s = (s', Inr nd)"
  then obtain ts where ts: "map_of (tilesets m) 1 = Some ts"
    by (auto simp add: load_tile_layer_alt split: option.splits)
  let ?rows = "case data l of None \<Rightarrow> [] | Some d \<Rightarrow> d"
  from ok ts have c: "compose_tile_layer tio m ts l (new_node (layer_name l) PandaNode)
            (new_node ''cluster_collider'' PandaNode) (made (made s)) = (s', Inr nd)"
    by (simp add: load_tile_layer_alt)
  then obtain s1 vd cp where rows: "load_tile_rows ts (tile_size m) 0 ?rows
            ([], new_node ''cluster_collider'' PandaNode) (made (made s)) = (s1, Inr (vd, cp))"
    and g: "\<exists>cluster. generate_node tio ts vd s1 = (s', Inr cluster)
              \<and> nd = attach (new_node (layer_name l) PandaNode) (attach cluster cp)"
    by (auto simp add: compose_tile_layer_def split: prod.splits sum.splits)
  from g obtain tex where tex: "load_tileset_image tio ts = Inr tex"
    and nd: "nd = attach (new_node (layer_name l) PandaNode)
                   (attach (new_node ''tile'' (GeomNode [(generate_geom vd, make_render_state tex)])) cp)"
    by (auto simp add: generate_node_def Let_def split: sum.splits)
  have "layer_meshes nd = [(generate_geom vd, make_render_state tex)]"
    by (simp add: nd layer_meshes_def new_node_def)
  moreover from load_tile_rows_texcoords [OF rows]
  have "map snd vd = concat (map (tile_texcoords ts) (filter (\<lambda>g. g \<noteq> 0) (concat ?rows)))"
    by simp
  ultimately show "\<exists>ts tex vd. map_of (tilesets m) 1 = Some ts
           \<and> load_tileset_image tio ts = Inr tex
           \<and> layer_meshes nd = [(generate_geom vd, make_render_state tex)]
           \<and> map snd vd =
               concat (map (tile_texcoords ts) (filter (\<lambda>g. g \<noteq> 0) (concat ?rows)))"
    using ts tex by blast
qed


theorem load_tile_layer_tileset_key_1_witness:
  "map_sum id (map snd \<circ> layer_meshes)
        (snd (load_tile_layer example_reader example_map (TileLayer ''props'' (Some [[12]]))
                initial_world))
       = map_sum id (\<lambda>tex. [make_render_state tex])
           (load_tileset_image example_reader collider_tileset)
   \<and> load_tile_layer example_reader (example_map\<lparr>tilesets := [(1, collider_tileset)]\<rparr>)
         (TileLayer ''props'' (Some [[12]])) initial_world
       = load_tile_layer example_reader example_map (TileLayer ''props'' (Some [[12]])) initial_world
   \<and> snd (load_tile_layer example_reader (example_map\<lparr>tilesets := [(11, collider_tileset)]\<rparr>)
         (TileLayer ''props'' (Some [[12]])) initial_world) = Inl (KeyError 1)"
proof -
  let ?l = "TileLayer ''props'' (Some [[12]])"
  obtain s' r where run: "load_tile_layer example_reader example_map ?l initial_world = (s', r)"
    by (cases "load_tile_layer example_reader example_map ?l initial_world")
  have "\<exists>nd. r = Inr nd"
    using run
    by (simp add: load_tile_layer_alt compose_tile_layer_def example_defs tile_defs) blast
  then obtain nd where r: "r = Inr nd" ..
  have key: "map_of (tilesets example_map) 1 = Some collider_tileset"
    by (simp add: example_map_def)
  from load_tile_layer_tileset_key_1 [of example_map example_reader ?l initial_world s' nd example_map]
    run r key
  obtain tex vd where "load_tileset_image example_reader collider_tileset = Inr tex"
    and "layer_meshes nd = [(generate_geom vd, make_render_state tex)]"
    by auto
  then have a: "map_sum id (map snd \<circ> layer_meshes)
        (snd (load_tile_layer example_reader example_map ?l initial_world))
       = map_sum id (\<lambda>tex. [make_render_state tex])
           (load_tileset_image example_reader collider_tileset)"
    by (simp add: run r)
  have b: "load_tile_layer example_reader (example_map\<lparr>tilesets := [(1, collider_tileset)]\<rparr>)
         ?l initial_world = load_tile_layer example_reader example_map ?l initial_world"
    using load_tile_layer_tileset_key_1 [of example_map example_reader ?l initial_world s' nd
        "example_map\<lparr>tilesets := [(1, collider_tileset)]\<rparr>"]
    by (simp add: example_map_def)
  have c: "snd (load_tile_layer example_reader (example_map\<lparr>tilesets := [(11, collider_tileset)]\<rparr>)
         ?l initial_world) = Inl (KeyError 1)"
    using load_tile_layer_tileset_key_1 [of "example_map\<lparr>tilesets := [(11, collider_tileset)]\<rparr>"
        example_reader ?l initial_world s' nd example_map]
    by simp
  from a b c show ?thesis by blast
qed

text \<open>
  The claim as worded fails on the example map, whose tilesets are declared under keys
  1 and 11: for a layer holding gid 12, which the second tileset owns, the mesh is
  textured from the first tileset, and the result differs from that of a composer that
  takes the second declared tileset.
\<close>

theorem tile_layer_second_declared_counterexample:
  "second_declared_tileset example_map = Some (atlas_tileset ''props'' 11 5)
   \<and> map_sum id (map snd \<circ> layer_meshes)
        (snd (load_tile_layer example_reader example_map (TileLayer ''props'' (Some [[12]]))
                initial_world))
       = map_sum id (\<lambda>tex. [make_render_state tex])
           (load_tileset_image example_reader collider_tileset)
   \<and> load_tile_layer example_reader example_map (TileLayer ''props'' (Some [[12]])) initial_world
       \<noteq> load_tile_layer_second_declared example_reader example_map
            (TileLayer ''props'' (Some [[12]])) initial_world"
  by (simp add: load_tile_layer_alt load_tile_layer_second_declared_def second_declared_tileset_def
      compose_tile_layer_def example_defs tile_defs layer_meshes_def)

section \<open>Placed tile objects\<close>

lemma place_tile_alt:
  assumes "place_tile tio m obj g s = (s', Inr tile_path)"
  shows "\<exists>gs. tile_path =
           (let node = Node ''tile'' (GeomNode gs) (0, 0, snd (obj_size obj))
                         (fst (obj_size obj) / fst (tile_size m), 1,
                          snd (obj_size obj) / snd (tile_size m)) 0 None
            in case get_collider s g of None \<Rightarrow> node [] | Some c \<Rightarrow> node [c])"
  using assms
  by (auto simp add: place_tile_def generate_node_def Let_def new_node_def get_collider_def made_def
      split: sum.splits prod.splits if_splits option.splits)

text \<open>
  Claim C5, as the code has it.  When \<open>place_object\<close> returns for a tile object whose gid
  has a registered collider, the collider is the only child of the tile node, attached
  unchanged (so at the tile's local origin) after the tile node's position and scale
  were set; the tile node carries the scale object size / map tile size, and the
  collider inherits it.
\<close>

theorem place_object_collider_child:
  assumes "shape obj = Tile g" and "get_collider s g = Some c"
    and "place_object tio m obj s = (s', Inr nd)"
  shows "(\<exists>gs. nd =
            Node (obj_name obj) PandaNode (fst (coordinates obj), 0, - snd (coordinates obj))
              (1, 1, 1) (rotation obj) None
              [Node ''tile'' (GeomNode gs) (0, 0, snd (obj_size obj))
                 (fst (obj_size obj) / fst (tile_size m), 1, snd (obj_size obj) / snd (tile_size m))
                 0 None [c]])
         \<and> collider_scales (1, 1, 1) nd =
             collider_scales
               (fst (obj_size obj) / fst (tile_size m), 1, snd (obj_size obj) / snd (tile_size m)) c"
proof -
  from assms(1,3) obtain s1 tile_path where
    t: "place_tile tio m obj g (made s) = (s1, Inr tile_path)"
    and nd: "nd = set_r (rotation obj)
               (set_pos (fst (coordinates obj), 0, - snd (coordinates obj))
                  (attach (new_node (obj_name obj) PandaNode) tile_path))"
    by (auto simp add: place_object_def Let_def split: prod.splits sum.splits)
  have "get_collider (made s) g = Some c"
    using assms(2) by (simp add: get_collider_def made_def)
  with place_tile_alt [OF t] obtain gs where
    "tile_path = Node ''tile'' (GeomNode gs) (0, 0, snd (obj_size obj))
                   (fst (obj_size obj) / fst (tile_size m), 1, snd (obj_size obj) / snd (tile_size m))
                   0 None [c]"
    by auto
  with nd have eq: "nd =
            Node (obj_name obj) PandaNode (fst (coordinates obj), 0, - snd (coordinates obj))
              (1, 1, 1) (rotation obj) None
              [Node ''tile'' (GeomNode gs) (0, 0, snd (obj_size obj))
                 (fst (obj_size obj) / fst (tile_size m), 1, snd (obj_size obj) / snd (tile_size m))
                 0 None [c]]"
    by (simp add: new_node_def)
  then have "collider_scales (1, 1, 1) nd =
             collider_scales
               (fst (obj_size obj) / fst (tile_size m), 1, snd (obj_size obj) / snd (tile_size m)) c"
    by simp
  with eq show ?thesis by blast
qed

theorem place_object_collider_child_witness:
  "map_sum id (collider_scales (1, 1, 1))
     (snd (place_object example_reader example_map crate_object loaded_world))
   = Inr (collider_scales (64 / 32, 1, 64 / 32)
            (new_node ''collision_node'' (CollisionNode [CollisionBox (0, -16, -16) (32, 16, 0)])))"
proof -
  let ?c = "new_node ''collision_node'' (CollisionNode [CollisionBox (0, -16, -16) (32, 16, 0)])"
  obtain s' r where run: "place_object example_reader example_map crate_object loaded_world = (s', r)"
    by (cases "place_object example_reader example_map crate_object loaded_world")
  have "\<exists>nd. r = Inr nd"
    using run
    by (simp add: loaded_world_eq place_object_def place_tile_def crate_object_def find_source_def
        example_defs tile_defs) blast
  then obtain nd where r: "r = Inr nd" ..
  have "shape crate_object = Tile 5" and "get_collider loaded_world 5 = Some ?c"
    and "place_object example_reader example_map crate_object loaded_world = (s', Inr nd)"
    using run r by (simp_all add: crate_object_def loaded_world_eq get_collider_def)
  from place_object_collider_child [OF this]
  have "collider_scales (1, 1, 1) nd =
          collider_scales (fst (obj_size crate_object) / fst (tile_size example_map), 1,
                           snd (obj_size crate_object) / snd (tile_size example_map)) ?c"
    by blast
  then have "collider_scales (1, 1, 1) nd = collider_scales (64 / 32, 1, 64 / 32) ?c"
    by (simp add: crate_object_def example_map_def)
  then show ?thesis
    using run r by simp
qed

text \<open>
  The claim as worded fails on a 64 by 64 tile object over 32 by 32 map tiles: its
  collider ends up scaled by (2, 1, 2), not left in tile-native units.
\<close>

theorem place_object_collider_scaled_counterexample:
  "map_sum id (collider_scales (1, 1, 1))
     (snd (place_object example_reader example_map crate_object loaded_world)) = Inr [(2, 1, 2)]
   \<and> map_sum id (collider_scales (1, 1, 1))
     (snd (place_object example_reader example_map crate_object loaded_world)) \<noteq> Inr [(1, 1, 1)]"
  by (simp add: loaded_world_eq place_object_def place_tile_def crate_object_def find_source_def
      example_defs tile_defs)

section \<open>What a load changes in the document\<close>










end
